theory Spec2Isabelle
  imports Complex_Main
begin

section \<open>SpeedLimit-Project: router, risk optimizer, air-quality agent and controller\<close>

text \<open>
  The four services of \<^verbatim>\<open>src/app\<close> are embedded as HOL functions.
  Python floats are modelled as \<^typ>\<open>real\<close>: the code only compares them, adds them
  and divides a sum by a length, so rounding, infinities and NaN payloads are
  outside the model (a missing value, which pandas writes as NaN, is \<^term>\<open>None\<close>).
  Python ints are \<^typ>\<open>int\<close>.
\<close>

subsection \<open>RouterComponent/api.py\<close>

record WeatherInput =
  illuminance_lux :: real
  water_level_micrometers :: real
  temperature_celsius :: real

record RouterDecision =
  requires_neural_network :: bool
  reason :: string

definition THRESHOLD_LUX :: real where
  "THRESHOLD_LUX = 500"

definition THRESHOLD_WATER :: real where
  "THRESHOLD_WATER = 1000"

definition THRESHOLD_TEMP :: real where
  "THRESHOLD_TEMP = 0"

text \<open>\<^verbatim>\<open>" & ".join(reasons)\<close>.\<close>

fun join_amp :: "string list \<Rightarrow> string" where
  "join_amp [] = []"
| "join_amp [r] = r"
| "join_amp (r # rs) = r @ '' & '' @ join_amp rs"

text \<open>
  The f-string of the darkness message prints the float reading; Python's float
  formatting is the parameter \<open>fmt\<close>.
\<close>

definition darkness_message :: "(real \<Rightarrow> string) \<Rightarrow> real \<Rightarrow> string" where
  "darkness_message fmt lux = ''Darkness detected ('' @ fmt lux @ '' lux < 500)''"

definition check_weather_conditions :: "(real \<Rightarrow> string) \<Rightarrow> WeatherInput \<Rightarrow> RouterDecision" where
  "check_weather_conditions fmt data =
     (let reasons = [];
          is_dark = illuminance_lux data < THRESHOLD_LUX;
          reasons = (if is_dark then reasons @ [darkness_message fmt (illuminance_lux data)]
                     else reasons);
          is_black_ice = (water_level_micrometers data > THRESHOLD_WATER
                          \<and> temperature_celsius data < THRESHOLD_TEMP);
          reasons = (if is_black_ice then reasons @ [''Black Ice danger detected'']
                     else reasons)
      in if is_dark \<or> is_black_ice
         then \<lparr>requires_neural_network = True, reason = join_amp reasons\<rparr>
         else \<lparr>requires_neural_network = False,
               reason = ''Conditions are safe (sufficient light, no black ice).''\<rparr>)"

subsection \<open>ModelInference/api.py\<close>

text \<open>
  A request handler either returns its response model or fails: with an
  \<^verbatim>\<open>HTTPException\<close> (status code and the fixed part of its detail text), or with an
  exception nobody catches, which the framework answers with a plain-text 500.
\<close>

datatype http_error = HTTPException int string | InternalServerError

text \<open>
  The four module globals filled by \<^verbatim>\<open>load_artifacts\<close>; \<^term>\<open>None\<close> is Python's
  \<^verbatim>\<open>None\<close>. The fitted objects belong to scikit-learn and Keras, so they are
  parameters: \<open>imputer.transform\<close>, \<open>scaler.transform\<close> and
  \<open>float(model.predict(X)[0][0])\<close>, each of which may raise (\<^term>\<open>None\<close>).
\<close>

record artifacts =
  model :: "(real list \<Rightarrow> real option) option"
  scaler :: "(real list \<Rightarrow> real list option) option"
  feature_cols :: "string list option"
  imputer :: "(real option list \<Rightarrow> real list option) option"

text \<open>\<^verbatim>\<open>readings: Dict[int, float]\<close>, as the list of its items (a dict has each key once).\<close>

record SensorData =
  readings :: "(int \<times> real) list"

record SpeedLimitResponse =
  recommended_speed :: int
  predicted_risk :: real
  safety_status :: string

definition id_to_type :: "int \<rightharpoonup> string" where
  "id_to_type = map_of
     [(1, ''W''), (8, ''W''), (11, ''W''),
      (2, ''L''), (9, ''L''), (12, ''L''),
      (7, ''T''), (15, ''T''), (16, ''T''), (18, ''T''),
      (3, ''N''), (10, ''N''),
      (4, ''H''),
      (5, ''WD''), (13, ''WD''),
      (6, ''WS''), (14, ''WS''),
      (17, ''AP'')]"

text \<open>\<^verbatim>\<open>temp_values = {col: [] for col in feature_cols}\<close>\<close>

definition init_temp_values :: "string list \<Rightarrow> (string \<rightharpoonup> real list)" where
  "init_temp_values cols = map_of (map (\<lambda>col. (col, [])) cols)"

text \<open>The body of the loop over \<^verbatim>\<open>data.readings.items()\<close>.\<close>

fun collect_reading :: "(string \<rightharpoonup> real list) \<Rightarrow> int \<times> real \<Rightarrow> (string \<rightharpoonup> real list)" where
  "collect_reading temp_values (sensor_id, v) =
     (case id_to_type sensor_id of
        None \<Rightarrow> temp_values
      | Some sensor_type \<Rightarrow>
          (case temp_values sensor_type of
             None \<Rightarrow> temp_values
           | Some vals \<Rightarrow> temp_values(sensor_type \<mapsto> vals @ [v])))"

definition collect_readings :: "string list \<Rightarrow> (int \<times> real) list \<Rightarrow> (string \<rightharpoonup> real list)" where
  "collect_readings cols rs = foldl collect_reading (init_temp_values cols) rs"

text \<open>
  \<^verbatim>\<open>input_values\<close> after the loop over \<^verbatim>\<open>temp_values.items()\<close>: a key for every
  feature column, NaN (\<^term>\<open>None\<close>) unless the column collected a reading, else
  \<^verbatim>\<open>sum(vals) / len(vals)\<close>.
\<close>

definition input_values_of :: "string list \<Rightarrow> (int \<times> real) list \<Rightarrow> (string \<rightharpoonup> real option)" where
  "input_values_of cols rs =
     (\<lambda>col. case collect_readings cols rs col of
               None \<Rightarrow> None
             | Some vals \<Rightarrow>
                 Some (if vals \<noteq> [] then Some (sum_list vals / real (length vals)) else None))"

definition candidate_speeds :: "int list" where
  "candidate_speeds = [130, 120, 110, 100, 90, 80, 70, 60]"

text \<open>
  \<^verbatim>\<open>input_values['SPEED_LIMIT'] = float(speed)\<close> and
  \<^verbatim>\<open>pd.DataFrame([input_values], columns=feature_cols)\<close>: one row, the columns in the
  order of the feature list (a pandas column index, its names distinct), NaN for a
  name the dict does not hold.
\<close>

definition trial_row :: "string list \<Rightarrow> (string \<rightharpoonup> real option) \<Rightarrow> int \<Rightarrow> real option list" where
  "trial_row cols input_values speed =
     (let input_values = input_values(''SPEED_LIMIT'' \<mapsto> Some (real_of_int speed))
      in map (\<lambda>col. case input_values col of None \<Rightarrow> None | Some v \<Rightarrow> v) cols)"

text \<open>\<^verbatim>\<open>df_trial.fillna(0).values\<close>\<close>

definition fillna0 :: "real option list \<Rightarrow> real list" where
  "fillna0 row = map (\<lambda>v. case v of None \<Rightarrow> 0 | Some x \<Rightarrow> x) row"

definition impute :: "(real option list \<Rightarrow> real list option) option \<Rightarrow> real option list \<Rightarrow> real list option" where
  "impute imp df_trial = (case imp of Some f \<Rightarrow> f df_trial | None \<Rightarrow> Some (fillna0 df_trial))"

text \<open>Impute, scale, predict: the risk of one trial row.\<close>

definition predict_risk ::
  "(real list \<Rightarrow> real option) \<Rightarrow> (real list \<Rightarrow> real list option) \<Rightarrow>
   (real option list \<Rightarrow> real list option) option \<Rightarrow> real option list \<Rightarrow> real option" where
  "predict_risk m s imp df_trial =
     (case impute imp df_trial of
        None \<Rightarrow> None
      | Some X_imputed \<Rightarrow>
          (case s X_imputed of
             None \<Rightarrow> None
           | Some X_scaled \<Rightarrow> m X_scaled))"

record search_state =
  best_speed :: int
  lowest_risk :: real
  found_safe :: bool

text \<open>
  The \<^verbatim>\<open>for speed in candidate_speeds\<close> loop, \<open>risk_of\<close> being the risk predicted
  for a candidate; \<^term>\<open>None\<close> is an exception leaving the loop and the handler.
\<close>

fun optimization_loop :: "(int \<Rightarrow> real option) \<Rightarrow> int list \<Rightarrow> search_state \<Rightarrow> search_state option" where
  "optimization_loop risk_of [] st = Some st"
| "optimization_loop risk_of (speed # rest) st =
     (case risk_of speed of
        None \<Rightarrow> None
      | Some risk \<Rightarrow>
          (let st = (if risk < lowest_risk st then st\<lparr>lowest_risk := risk\<rparr> else st)
           in if risk < 1.0
              then Some (st\<lparr>best_speed := speed, found_safe := True\<rparr>)
              else optimization_loop risk_of rest st))"

definition risk_at :: "artifacts \<Rightarrow> SensorData \<Rightarrow> int \<Rightarrow> real option" where
  "risk_at a data speed =
     (case (model a, scaler a, feature_cols a) of
        (Some m, Some s, Some cols) \<Rightarrow>
          predict_risk m s (imputer a) (trial_row cols (input_values_of cols (readings data)) speed)
      | _ \<Rightarrow> None)"

definition find_safe_speed_limit :: "artifacts \<Rightarrow> SensorData \<Rightarrow> http_error + SpeedLimitResponse" where
  "find_safe_speed_limit a data =
     (case (model a, scaler a, feature_cols a) of
        (Some m, Some s, Some cols) \<Rightarrow>
          (let input_values = input_values_of cols (readings data)
           in if ''SPEED_LIMIT'' \<notin> set cols
              then Inr \<lparr>recommended_speed = 80, predicted_risk = 0.0,
                        safety_status = ''Error: SPEED_LIMIT missing in model''\<rparr>
              else
                (case optimization_loop
                        (\<lambda>speed. predict_risk m s (imputer a) (trial_row cols input_values speed))
                        candidate_speeds
                        \<lparr>best_speed = 30, lowest_risk = 999.0, found_safe = False\<rparr> of
                   None \<Rightarrow> Inl InternalServerError
                 | Some st \<Rightarrow>
                     Inr (if found_safe st
                          then \<lparr>recommended_speed = best_speed st,
                                predicted_risk = lowest_risk st,
                                safety_status = ''Safe''\<rparr>
                          else \<lparr>recommended_speed = 60,
                                predicted_risk = lowest_risk st,
                                safety_status = ''Risk High - Lowest Limit Selected''\<rparr>)))
      | _ \<Rightarrow> Inl (HTTPException 503 ''Service not ready. Artifacts missing.''))"

subsection \<open>AirQualityLLM/agent.py and AirQualityLLM/api.py\<close>

record SpeedReductionResponse =
  reduction_kmh :: int
  reason :: string

text \<open>
  The completion provider is the OpenAI client, a parameter: for the prompt built from
  an AQI it raises, or returns a completion, of which the code reads
  \<^verbatim>\<open>choices[i].message.parsed\<close> (\<^term>\<open>None\<close> when the provider parsed nothing).
\<close>

datatype provider_error = Timeout | NetworkError | SchemaValidationFailure

type_synonym completion = "SpeedReductionResponse option list"

type_synonym provider = "int \<Rightarrow> provider_error + completion"

definition fallback :: SpeedReductionResponse where
  "fallback = \<lparr>reduction_kmh = 0,
               reason = ''Error connecting to AI Agent. Defaulting to safe baseline.''\<rparr>"

text \<open>
  The \<^verbatim>\<open>try\<close> block of \<^verbatim>\<open>get_speed_reduction\<close>: \<^verbatim>\<open>choices[0]\<close> of no choice is an
  IndexError and \<^verbatim>\<open>None.model_dump()\<close> an AttributeError, both caught by
  \<^verbatim>\<open>except Exception\<close> like a failure of the call. Either return path builds a dict
  of exactly the two keys, which is the record.
\<close>

definition get_speed_reduction :: "provider \<Rightarrow> int \<Rightarrow> SpeedReductionResponse" where
  "get_speed_reduction client aqi =
     (case client aqi of
        Inl e \<Rightarrow> fallback
      | Inr choices \<Rightarrow>
          (case choices of
             [] \<Rightarrow> fallback
           | parsed_result # _ \<Rightarrow>
               (case parsed_result of
                  None \<Rightarrow> fallback
                | Some r \<Rightarrow> r)))"

record AirQualityRequest =
  aqi :: int
  description :: string

record ReductionResponse =
  aqi_received :: int
  reduction_kmh :: int
  reason :: string
  recommended_speed_limit :: int

text \<open>
  No statement in the \<^verbatim>\<open>try\<close> block of \<^verbatim>\<open>calculate_reduction\<close> raises
  (the agent catches its own failures, both keys are in its dict, the arithmetic is on
  ints), so the handler of \<^verbatim>\<open>except Exception\<close> has no branch here.
\<close>

definition calculate_reduction :: "provider \<Rightarrow> AirQualityRequest \<Rightarrow> http_error + ReductionResponse" where
  "calculate_reduction client request =
     (let result = get_speed_reduction client (aqi request);
          reduction = SpeedReductionResponse.reduction_kmh result;
          reason = SpeedReductionResponse.reason result;
          BASELINE_SPEED = 80;
          final_limit = max 30 (BASELINE_SPEED - reduction)
      in Inr \<lparr>aqi_received = aqi request,
               reduction_kmh = reduction,
               reason = reason,
               recommended_speed_limit = final_limit\<rparr>)"

subsection \<open>SpeedLimitController/api.py\<close>

record UserInput =
  temperature_celsius :: real
  water_level_micrometers :: real
  illuminance_lux :: real
  aqi :: int

record FinalSystemDecision =
  final_speed_limit :: int
  reason :: string
  source_service :: string

text \<open>What \<^verbatim>\<open>response.json()\<close> decodes: the Python value of a JSON body.\<close>

datatype json =
  JNull
| JBool bool
| JInt int
| JFloat real
| JStr string
| JArr "json list"
| JObj "(string \<times> json) list"

datatype exn = TransportError | AttributeError | KeyError string | TypeError | ValidationError

text \<open>\<^verbatim>\<open>d.get(key, default)\<close>: only a dict has the method.\<close>

fun py_get :: "json \<Rightarrow> string \<Rightarrow> json \<Rightarrow> exn + json" where
  "py_get (JObj kvs) k d = Inr (case map_of kvs k of None \<Rightarrow> d | Some v \<Rightarrow> v)"
| "py_get _ k d = Inl AttributeError"

text \<open>\<^verbatim>\<open>d[key]\<close> with a string key: KeyError on a dict without it, TypeError on anything else.\<close>

fun py_item :: "json \<Rightarrow> string \<Rightarrow> exn + json" where
  "py_item (JObj kvs) k = (case map_of kvs k of None \<Rightarrow> Inl (KeyError k) | Some v \<Rightarrow> Inr v)"
| "py_item _ k = Inl TypeError"

text \<open>The truth value \<^verbatim>\<open>if requires_nn:\<close> tests.\<close>

fun truthy :: "json \<Rightarrow> bool" where
  "truthy JNull = False"
| "truthy (JBool b) = b"
| "truthy (JInt n) = (n \<noteq> 0)"
| "truthy (JFloat x) = (x \<noteq> 0)"
| "truthy (JStr s) = (s \<noteq> [])"
| "truthy (JArr xs) = (xs \<noteq> [])"
| "truthy (JObj kvs) = (kvs \<noteq> [])"

text \<open>
  What the controller reaches through httpx and what it borrows from Python and
  pydantic: each \<^verbatim>\<open>client.post(...)\<close> followed by \<^verbatim>\<open>.json()\<close> either raises
  (no connection, a body that is not JSON) or yields the decoded body, whatever the
  status code; \<open>py_str\<close> is how an f-string prints a value that is not a string, and
  \<open>coerce_int\<close> what pydantic makes of a value that is not an int in an int field.
\<close>

record services =
  router_post :: "WeatherInput \<Rightarrow> exn + json"
  inference_post :: "SensorData \<Rightarrow> exn + json"
  air_quality_post :: "AirQualityRequest \<Rightarrow> exn + json"
  py_str :: "json \<Rightarrow> string"
  coerce_int :: "json \<Rightarrow> int option"

definition fstr :: "services \<Rightarrow> json \<Rightarrow> string" where
  "fstr sv v = (case v of JStr s \<Rightarrow> s | _ \<Rightarrow> py_str sv v)"

definition int_field :: "services \<Rightarrow> json \<Rightarrow> exn + int" where
  "int_field sv v =
     (case v of
        JInt n \<Rightarrow> Inr n
      | _ \<Rightarrow> (case coerce_int sv v of None \<Rightarrow> Inl ValidationError | Some n \<Rightarrow> Inr n))"

definition map_input_to_sensors :: "UserInput \<Rightarrow> (int \<times> real) list" where
  "map_input_to_sensors data =
     [(1, UserInput.water_level_micrometers data),
      (2, UserInput.illuminance_lux data),
      (7, UserInput.temperature_celsius data)]"

text \<open>The \<^verbatim>\<open>router_payload\<close> dict: the three weather readings of the request.\<close>

definition router_payload :: "UserInput \<Rightarrow> WeatherInput" where
  "router_payload user_input =
     \<lparr>WeatherInput.illuminance_lux = UserInput.illuminance_lux user_input,
      WeatherInput.water_level_micrometers = UserInput.water_level_micrometers user_input,
      WeatherInput.temperature_celsius = UserInput.temperature_celsius user_input\<rparr>"

text \<open>
  STEP 1 of \<^verbatim>\<open>decide_speed_limit\<close>: any exception becomes the 503 of the router
  (the \<^verbatim>\<open>str(e)\<close> that ends the detail text is left out of the model).
\<close>

definition call_router :: "services \<Rightarrow> UserInput \<Rightarrow> http_error + json \<times> json" where
  "call_router sv user_input =
     (case router_post sv (router_payload user_input) of
        Inl e \<Rightarrow> Inl (HTTPException 503 ''Failed to contact Router Service: '')
      | Inr router_data \<Rightarrow>
          (case py_get router_data ''requires_neural_network'' (JBool False) of
             Inl e \<Rightarrow> Inl (HTTPException 503 ''Failed to contact Router Service: '')
           | Inr requires_nn \<Rightarrow>
               (case py_get router_data ''reason'' (JStr ''Unknown'') of
                  Inl e \<Rightarrow> Inl (HTTPException 503 ''Failed to contact Router Service: '')
                | Inr router_reason \<Rightarrow> Inr (requires_nn, router_reason))))"

text \<open>BRANCH A; the arguments of the constructor are evaluated from left to right.\<close>

definition branch_neural_network :: "services \<Rightarrow> json \<Rightarrow> UserInput \<Rightarrow> http_error + FinalSystemDecision" where
  "branch_neural_network sv router_reason user_input =
     (let sensor_payload = \<lparr>readings = map_input_to_sensors user_input\<rparr>;
          failed = Inl (HTTPException 503 ''Failed to contact Inference Service: '')
      in case inference_post sv sensor_payload of
           Inl e \<Rightarrow> failed
         | Inr inference_data \<Rightarrow>
             (case py_item inference_data ''recommended_speed'' of
                Inl e \<Rightarrow> failed
              | Inr speed \<Rightarrow>
                  (case py_item inference_data ''safety_status'' of
                     Inl e \<Rightarrow> failed
                   | Inr status \<Rightarrow>
                       (case int_field sv speed of
                          Inl e \<Rightarrow> failed
                        | Inr n \<Rightarrow>
                            Inr \<lparr>final_speed_limit = n,
                                 reason = ''Weather Hazard Detected ('' @ fstr sv router_reason
                                          @ ''). Risk Analysis: '' @ fstr sv status,
                                 source_service = ''Neural Network Inference''\<rparr>))))"

text \<open>BRANCH B.\<close>

definition branch_air_quality :: "services \<Rightarrow> UserInput \<Rightarrow> http_error + FinalSystemDecision" where
  "branch_air_quality sv user_input =
     (let aq_payload = \<lparr>AirQualityRequest.aqi = UserInput.aqi user_input,
                         description = ''User Input from Controller''\<rparr>;
          failed = Inl (HTTPException 503 ''Failed to contact Air Quality Service: '')
      in case air_quality_post sv aq_payload of
           Inl e \<Rightarrow> failed
         | Inr aq_data \<Rightarrow>
             (case py_item aq_data ''recommended_speed_limit'' of
                Inl e \<Rightarrow> failed
              | Inr limit \<Rightarrow>
                  (case py_item aq_data ''reason'' of
                     Inl e \<Rightarrow> failed
                   | Inr aq_reason \<Rightarrow>
                       (case int_field sv limit of
                          Inl e \<Rightarrow> failed
                        | Inr n \<Rightarrow>
                            Inr \<lparr>final_speed_limit = n,
                                 reason = ''Weather is safe. Adjustment based on Air Quality: ''
                                          @ fstr sv aq_reason,
                                 source_service = ''Air Quality Agent (LLM)''\<rparr>))))"

definition decide_speed_limit :: "services \<Rightarrow> UserInput \<Rightarrow> http_error + FinalSystemDecision" where
  "decide_speed_limit sv user_input =
     (case call_router sv user_input of
        Inl err \<Rightarrow> Inl err
      | Inr (requires_nn, router_reason) \<Rightarrow>
          if truthy requires_nn
          then branch_neural_network sv router_reason user_input
          else branch_air_quality sv user_input)"

subsection \<open>The four services wired together\<close>

text \<open>
  The body a handler's result is sent as: the response model as a JSON object, the
  detail of an \<^verbatim>\<open>HTTPException\<close> as \<^verbatim>\<open>{"detail": ...}\<close>, and for an uncaught exception
  the text \<^verbatim>\<open>Internal Server Error\<close>, on which \<^verbatim>\<open>.json()\<close> raises.
\<close>

definition http_body :: "('a \<Rightarrow> json) \<Rightarrow> http_error + 'a \<Rightarrow> exn + json" where
  "http_body enc r =
     (case r of
        Inr x \<Rightarrow> Inr (enc x)
      | Inl (HTTPException code detail) \<Rightarrow> Inr (JObj [(''detail'', JStr detail)])
      | Inl InternalServerError \<Rightarrow> Inl TransportError)"

definition RouterDecision_json :: "RouterDecision \<Rightarrow> json" where
  "RouterDecision_json d =
     JObj [(''requires_neural_network'', JBool (requires_neural_network d)),
           (''reason'', JStr (RouterDecision.reason d))]"

definition SpeedLimitResponse_json :: "SpeedLimitResponse \<Rightarrow> json" where
  "SpeedLimitResponse_json r =
     JObj [(''recommended_speed'', JInt (recommended_speed r)),
           (''predicted_risk'', JFloat (predicted_risk r)),
           (''safety_status'', JStr (safety_status r))]"

definition ReductionResponse_json :: "ReductionResponse \<Rightarrow> json" where
  "ReductionResponse_json r =
     JObj [(''aqi_received'', JInt (aqi_received r)),
           (''reduction_kmh'', JInt (ReductionResponse.reduction_kmh r)),
           (''reason'', JStr (ReductionResponse.reason r)),
           (''recommended_speed_limit'', JInt (recommended_speed_limit r))]"

text \<open>
  The controller in front of the three services of this repository, run on the float
  formatting \<open>fmt\<close>, the loaded artifacts \<open>a\<close> and the completion provider \<open>client\<close>.
\<close>

definition deployed ::
  "(real \<Rightarrow> string) \<Rightarrow> artifacts \<Rightarrow> provider \<Rightarrow> (json \<Rightarrow> string) \<Rightarrow> (json \<Rightarrow> int option) \<Rightarrow> services" where
  "deployed fmt a client str coerce =
     \<lparr>router_post = (\<lambda>w. http_body RouterDecision_json (Inr (check_weather_conditions fmt w))),
      inference_post = (\<lambda>d. http_body SpeedLimitResponse_json (find_safe_speed_limit a d)),
      air_quality_post = (\<lambda>q. http_body ReductionResponse_json (calculate_reduction client q)),
      py_str = str,
      coerce_int = coerce\<rparr>"

subsection \<open>Notions of the specification\<close>

text \<open>
  A candidate is within the safety budget when the scoring pipeline predicts, for the
  request with that speed limit, a risk strictly below 1.0.
\<close>

definition is_safe :: "(int \<Rightarrow> real option) \<Rightarrow> int \<Rightarrow> bool" where
  "is_safe risk_of c = (case risk_of c of None \<Rightarrow> False | Some r \<Rightarrow> r < 1)"


text \<open>All readings whose sensor id maps to the feature type \<open>col\<close>, in request order.\<close>

definition mapped_readings :: "string \<Rightarrow> (int \<times> real) list \<Rightarrow> real list" where
  "mapped_readings col rs = map snd (filter (\<lambda>(i, v). id_to_type i = Some col) rs)"

text \<open>
  The row of feature values in the order of the feature list \<open>cols\<close>: the candidate
  speed under SPEED_LIMIT, elsewhere the mean of the readings mapped to the name, absent
  when there is none.
\<close>

definition feature_row :: "string list \<Rightarrow> (int \<times> real) list \<Rightarrow> int \<Rightarrow> real option list" where
  "feature_row cols rs speed =
     map (\<lambda>col. if col = ''SPEED_LIMIT'' then Some (real_of_int speed)
                else if mapped_readings col rs = [] then None
                else Some (sum_list (mapped_readings col rs)
                           / real (length (mapped_readings col rs))))
         cols"

subsection \<open>Concrete inputs\<close>

text \<open>
  A small artifact bundle: two features, an identity scaler, no imputer, and a scorer
  that returns the hundredth of the sum of the row.
\<close>

definition demo_artifacts :: artifacts where
  "demo_artifacts =
     \<lparr>model = Some (\<lambda>x. Some (sum_list x / 100)),
      scaler = Some Some,
      feature_cols = Some [''W'', ''SPEED_LIMIT''],
      imputer = None\<rparr>"

text \<open>The same scorer and scaler on three features, of which the readings leave T absent.\<close>

definition sparse_artifacts :: artifacts where
  "sparse_artifacts =
     \<lparr>model = Some (\<lambda>x. Some (sum_list x / 100)),
      scaler = Some Some,
      feature_cols = Some [''T'', ''SPEED_LIMIT'', ''W''],
      imputer = None\<rparr>"

definition demo_readings :: SensorData where
  "demo_readings = \<lparr>readings = [(1, 10), (8, 0), (99, 7)]\<rparr>"

text \<open>A provider that answers every AQI with the reduction \<open>r\<close>.\<close>

definition constant_provider :: "int \<Rightarrow> provider" where
  "constant_provider r =
     (\<lambda>n. Inr [Some \<lparr>SpeedReductionResponse.reduction_kmh = r,
                      SpeedReductionResponse.reason = ''Air quality rule''\<rparr>])"

definition demo_system :: "provider \<Rightarrow> services" where
  "demo_system client = deployed (\<lambda>x. ''0.0'') demo_artifacts client (\<lambda>v. []) (\<lambda>v. None)"

definition clear_day :: "int \<Rightarrow> UserInput" where
  "clear_day n =
     \<lparr>UserInput.temperature_celsius = 20, UserInput.water_level_micrometers = 0,
      UserInput.illuminance_lux = 50000, UserInput.aqi = n\<rparr>"

definition dark_night :: "int \<Rightarrow> UserInput" where
  "dark_night n =
     \<lparr>UserInput.temperature_celsius = 15, UserInput.water_level_micrometers = 0,
      UserInput.illuminance_lux = 0, UserInput.aqi = n\<rparr>"

section \<open>Verified properties\<close>

subsection \<open>Router: threshold rules\<close>

text \<open>
  C2. For every triple of readings the router asks for the risk model exactly when
  illuminance is strictly below 500 or (water depth strictly above 1000 and temperature
  strictly below 0). The router is a total function with no failing branch (its result
  type carries no error), and when both rules fire the reason is the darkness
  description followed by the black-ice description.
\<close>

theorem router_verdict_iff:
  "(requires_neural_network (check_weather_conditions fmt data)
      \<longleftrightarrow> WeatherInput.illuminance_lux data < 500
          \<or> (WeatherInput.water_level_micrometers data > 1000
             \<and> WeatherInput.temperature_celsius data < 0))
   \<and> (WeatherInput.illuminance_lux data < 500
        \<and> WeatherInput.water_level_micrometers data > 1000
        \<and> WeatherInput.temperature_celsius data < 0 \<longrightarrow>
        RouterDecision.reason (check_weather_conditions fmt data)
        = darkness_message fmt (WeatherInput.illuminance_lux data)
          @ '' & '' @ ''Black Ice danger detected'')"
  by (simp add: check_weather_conditions_def THRESHOLD_LUX_def THRESHOLD_WATER_def
      THRESHOLD_TEMP_def Let_def)

theorem router_verdict_iff_witness:
  "requires_neural_network (check_weather_conditions (\<lambda>x. ''499.0'')
      \<lparr>WeatherInput.illuminance_lux = 499, WeatherInput.water_level_micrometers = 2000,
       WeatherInput.temperature_celsius = - 5\<rparr>)
   \<and> RouterDecision.reason (check_weather_conditions (\<lambda>x. ''499.0'')
      \<lparr>WeatherInput.illuminance_lux = 499, WeatherInput.water_level_micrometers = 2000,
       WeatherInput.temperature_celsius = - 5\<rparr>)
     = ''Darkness detected (499.0 lux < 500) & Black Ice danger detected''
   \<and> \<not> requires_neural_network (check_weather_conditions (\<lambda>x. ''500.0'')
      \<lparr>WeatherInput.illuminance_lux = 500, WeatherInput.water_level_micrometers = 1000,
       WeatherInput.temperature_celsius = 0\<rparr>)"
  using router_verdict_iff [of "\<lambda>x. ''499.0''" "\<lparr>WeatherInput.illuminance_lux = 499,
          WeatherInput.water_level_micrometers = 2000,
          WeatherInput.temperature_celsius = - 5\<rparr>"]
        router_verdict_iff [of "\<lambda>x. ''500.0''" "\<lparr>WeatherInput.illuminance_lux = 500,
          WeatherInput.water_level_micrometers = 1000,
          WeatherInput.temperature_celsius = 0\<rparr>"]
  by (simp add: darkness_message_def)

subsection \<open>Risk optimizer: the candidate loop\<close>

text \<open>
  The loop stops at the first candidate within the budget: if it returns from a state
  in which nothing was found, it has found the first safe candidate of the list, or
  nothing when the list has none.
\<close>

lemma loop_first_safe:
  "optimization_loop f cs st = Some st' \<Longrightarrow> \<not> found_safe st \<Longrightarrow>
     (case filter (is_safe f) cs of
        [] \<Rightarrow> \<not> found_safe st' \<and> best_speed st' = best_speed st
      | c # _ \<Rightarrow> found_safe st' \<and> best_speed st' = c)"
proof (induction cs arbitrary: st)
  case Nil
  then show ?case by simp
next
  case (Cons c cs)
  then obtain r where r: "f c = Some r"
    by (cases "f c") auto
  show ?case
  proof (cases "r < 1")
    case True
    with Cons.prems r show ?thesis
      by (auto simp: is_safe_def Let_def)
  next
    case False
    let ?st = "if r < lowest_risk st then st\<lparr>lowest_risk := r\<rparr> else st"
    from Cons.prems r False have run: "optimization_loop f cs ?st = Some st'"
      by (simp add: Let_def)
    have nf: "\<not> found_safe ?st" using Cons.prems(2) by simp
    have "filter (is_safe f) (c # cs) = filter (is_safe f) cs"
      using r False by (simp add: is_safe_def)
    with Cons.IH [OF run nf] show ?thesis
      by (auto split: list.splits if_splits)
  qed
qed


lemma loop_speed_in_candidates:
  assumes "optimization_loop f cs st = Some st'" "\<not> found_safe st" "found_safe st'"
  shows "best_speed st' \<in> set cs"
proof -
  from loop_first_safe [OF assms(1,2)] assms(3)
  obtain c rest where "filter (is_safe f) cs = c # rest" "best_speed st' = c"
    by (auto split: list.splits)
  then show ?thesis
    using filter_is_subset [of "is_safe f" cs] by auto
qed



text \<open>With the artifacts loaded and the speed feature present, the handler is the loop.\<close>

lemma find_safe_unfold:
  assumes "model a = Some m" "scaler a = Some s" "feature_cols a = Some cols"
    and "''SPEED_LIMIT'' \<in> set cols"
  shows "find_safe_speed_limit a data =
     (case optimization_loop (risk_at a data) candidate_speeds
             \<lparr>best_speed = 30, lowest_risk = 999, found_safe = False\<rparr> of
        None \<Rightarrow> Inl InternalServerError
      | Some st \<Rightarrow>
          Inr (if found_safe st
               then \<lparr>recommended_speed = best_speed st, predicted_risk = lowest_risk st,
                     safety_status = ''Safe''\<rparr>
               else \<lparr>recommended_speed = 60, predicted_risk = lowest_risk st,
                     safety_status = ''Risk High - Lowest Limit Selected''\<rparr>))"
proof -
  have "risk_at a data
        = (\<lambda>speed. predict_risk m s (imputer a)
             (trial_row cols (input_values_of cols (readings data)) speed))"
    using assms by (simp add: risk_at_def fun_eq_iff)
  then show ?thesis
    using assms by (simp add: find_safe_speed_limit_def Let_def)
qed

lemma find_safe_speed_in_ladder:
  assumes "find_safe_speed_limit a data = Inr resp"
  shows "recommended_speed resp \<in> set candidate_speeds"
proof -
  from assms obtain m s cols where
    loaded: "model a = Some m" "scaler a = Some s" "feature_cols a = Some cols"
    by (auto simp: find_safe_speed_limit_def split: option.splits)
  show ?thesis
  proof (cases "''SPEED_LIMIT'' \<in> set cols")
    case False
    with assms loaded have "recommended_speed resp = 80"
      by (auto simp: find_safe_speed_limit_def)
    then show ?thesis by (simp add: candidate_speeds_def)
  next
    case True
    let ?st0 = "\<lparr>best_speed = 30, lowest_risk = 999, found_safe = False\<rparr>"
    from assms obtain st where
      run: "optimization_loop (risk_at a data) candidate_speeds ?st0 = Some st"
      and resp: "recommended_speed resp = (if found_safe st then best_speed st else 60)"
      unfolding find_safe_unfold [OF loaded True] by (auto split: option.splits)
    show ?thesis
    proof (cases "found_safe st")
      case True
      from loop_speed_in_candidates [OF run _ True] resp True show ?thesis by simp
    next
      case False
      with resp show ?thesis by (simp add: candidate_speeds_def)
    qed
  qed
qed

text \<open>
  The loop is left by an exception exactly when scoring raises on a candidate it
  reaches, that is, one before which no candidate was within the budget.
\<close>

lemma loop_fails_iff:
  "optimization_loop f cs st = None \<longleftrightarrow>
     (\<exists>pre c post. cs = pre @ c # post
        \<and> (\<forall>p\<in>set pre. \<exists>r. f p = Some r \<and> \<not> r < 1) \<and> f c = None)"
proof (induction cs arbitrary: st)
  case Nil
  then show ?case by simp
next
  case (Cons x xs)
  show ?case
  proof (cases "f x")
    case None
    have "x # xs = [] @ x # xs \<and> (\<forall>p\<in>set []. \<exists>r. f p = Some r \<and> \<not> r < 1) \<and> f x = None"
      using None by simp
    then have "\<exists>pre c post. x # xs = pre @ c # post
        \<and> (\<forall>p\<in>set pre. \<exists>r. f p = Some r \<and> \<not> r < 1) \<and> f c = None"
      by blast
    with None show ?thesis by simp
  next
    case (Some r)
    show ?thesis
    proof (cases "r < 1")
      case True
      have "\<not> (\<exists>pre c post. x # xs = pre @ c # post
        \<and> (\<forall>p\<in>set pre. \<exists>r. f p = Some r \<and> \<not> r < 1) \<and> f c = None)"
      proof
        assume "\<exists>pre c post. x # xs = pre @ c # post
          \<and> (\<forall>p\<in>set pre. \<exists>r. f p = Some r \<and> \<not> r < 1) \<and> f c = None"
        then obtain pre c post where d: "x # xs = pre @ c # post"
          and u: "\<forall>p\<in>set pre. \<exists>r. f p = Some r \<and> \<not> r < 1" and n: "f c = None"
          by blast
        show False
        proof (cases pre)
          case Nil
          with d n Some show False by simp
        next
          case (Cons y ys)
          with d have "x \<in> set pre" by simp
          with u Some True show False by auto
        qed
      qed
      with Some True show ?thesis by (simp add: Let_def)
    next
      case False
      let ?st = "if r < lowest_risk st then st\<lparr>lowest_risk := r\<rparr> else st"
      have step: "optimization_loop f (x # xs) st = optimization_loop f xs ?st"
        using Some False by (simp add: Let_def)
      have "(\<exists>pre c post. x # xs = pre @ c # post
          \<and> (\<forall>p\<in>set pre. \<exists>r. f p = Some r \<and> \<not> r < 1) \<and> f c = None)
        \<longleftrightarrow> (\<exists>pre c post. xs = pre @ c # post
          \<and> (\<forall>p\<in>set pre. \<exists>r. f p = Some r \<and> \<not> r < 1) \<and> f c = None)"
      proof
        assume "\<exists>pre c post. x # xs = pre @ c # post
          \<and> (\<forall>p\<in>set pre. \<exists>r. f p = Some r \<and> \<not> r < 1) \<and> f c = None"
        then obtain pre c post where d: "x # xs = pre @ c # post"
          and u: "\<forall>p\<in>set pre. \<exists>r. f p = Some r \<and> \<not> r < 1" and n: "f c = None"
          by blast
        show "\<exists>pre c post. xs = pre @ c # post
          \<and> (\<forall>p\<in>set pre. \<exists>r. f p = Some r \<and> \<not> r < 1) \<and> f c = None"
        proof (cases pre)
          case Nil
          with d n Some show ?thesis by simp
        next
          case (Cons y ys)
          with d have "xs = ys @ c # post" by simp
          moreover from u Cons have "\<forall>p\<in>set ys. \<exists>r. f p = Some r \<and> \<not> r < 1" by simp
          ultimately show ?thesis using n by blast
        qed
      next
        assume "\<exists>pre c post. xs = pre @ c # post
          \<and> (\<forall>p\<in>set pre. \<exists>r. f p = Some r \<and> \<not> r < 1) \<and> f c = None"
        then obtain pre c post where d: "xs = pre @ c # post"
          and u: "\<forall>p\<in>set pre. \<exists>r. f p = Some r \<and> \<not> r < 1" and n: "f c = None"
          by blast
        from d have "x # xs = (x # pre) @ c # post" by simp
        moreover from u Some False have "\<forall>p\<in>set (x # pre). \<exists>r. f p = Some r \<and> \<not> r < 1"
          by simp
        ultimately show "\<exists>pre c post. x # xs = pre @ c # post
          \<and> (\<forall>p\<in>set pre. \<exists>r. f p = Some r \<and> \<not> r < 1) \<and> f c = None"
          using n by blast
      qed
      with step Cons.IH [of ?st] show ?thesis by simp
    qed
  qed
qed

lemma find_safe_status_safe:
  assumes "model a = Some m" "scaler a = Some s" "feature_cols a = Some cols"
    and "''SPEED_LIMIT'' \<in> set cols"
    and "find_safe_speed_limit a data = Inr resp" and "safety_status resp = ''Safe''"
  shows "\<exists>r. risk_at a data (recommended_speed resp) = Some r \<and> r < 1"
proof -
  let ?st0 = "\<lparr>best_speed = 30, lowest_risk = 999, found_safe = False\<rparr>"
  from assms(5,6) obtain st where
    run: "optimization_loop (risk_at a data) candidate_speeds ?st0 = Some st"
    and found: "found_safe st" and speed: "recommended_speed resp = best_speed st"
    unfolding find_safe_unfold [OF assms(1-4)] by (auto split: option.splits if_splits)
  from loop_first_safe [OF run] found obtain rest where
    "filter (is_safe (risk_at a data)) candidate_speeds = best_speed st # rest"
    by (auto split: list.splits)
  then have "best_speed st \<in> set (filter (is_safe (risk_at a data)) candidate_speeds)"
    by simp
  then have "is_safe (risk_at a data) (best_speed st)"
    by simp
  with speed show ?thesis
    by (auto simp: is_safe_def split: option.splits)
qed







subsection \<open>Risk optimizer: from sparse readings to feature values\<close>

lemma init_temp_values_apply:
  "init_temp_values cols col = (if col \<in> set cols then Some [] else None)"
  by (induction cols) (auto simp: init_temp_values_def)

text \<open>
  What the loop over the readings leaves under a key: the list it started with,
  followed by the readings mapped to that key, in the order of the request.
\<close>

lemma foldl_collect:
  "foldl collect_reading tv rs col =
     (case tv col of
        None \<Rightarrow> None
      | Some vs \<Rightarrow> Some (vs @ mapped_readings col rs))"
proof (induction rs arbitrary: tv)
  case Nil
  then show ?case by (simp add: mapped_readings_def split: option.splits)
next
  case (Cons r rs)
  obtain i v where r: "r = (i, v)" by (cases r)
  show ?case
    unfolding r using Cons.IH by (simp add: mapped_readings_def split: option.splits)
qed

lemma input_values_of_apply:
  "input_values_of cols rs col =
     (if col \<in> set cols
      then Some (if mapped_readings col rs = [] then None
                 else Some (sum_list (mapped_readings col rs)
                            / real (length (mapped_readings col rs))))
      else None)"
  by (simp add: input_values_of_def collect_readings_def foldl_collect init_temp_values_apply)

lemma mapped_readings_unmapped:
  "id_to_type i = None \<Longrightarrow> mapped_readings col (rs @ (i, v) # rs') = mapped_readings col (rs @ rs')"
  by (simp add: mapped_readings_def)

text \<open>
  C9. The sensor table of the code is the table of the specification (water 1, 8, 11;
  light 2, 9, 12; temperature 7, 15, 16, 18; noise 3, 10; humidity 4; wind direction 5,
  13; wind strength 6, 14; air pressure 17). The value of a feature of the feature list
  is the arithmetic mean of all readings whose sensor id maps to it, and absent (NaN)
  when there is none; a reading with an id outside the table changes nothing.
\<close>

theorem feature_value_is_mean:
  "id_to_type i =
     (if i \<in> {1, 8, 11} then Some ''W''
      else if i \<in> {2, 9, 12} then Some ''L''
      else if i \<in> {7, 15, 16, 18} then Some ''T''
      else if i \<in> {3, 10} then Some ''N''
      else if i \<in> {4} then Some ''H''
      else if i \<in> {5, 13} then Some ''WD''
      else if i \<in> {6, 14} then Some ''WS''
      else if i \<in> {17} then Some ''AP''
      else None)
   \<and> (col \<in> set cols \<longrightarrow>
        input_values_of cols rs col =
          Some (if mapped_readings col rs = [] then None
                else Some (sum_list (mapped_readings col rs)
                           / real (length (mapped_readings col rs)))))
   \<and> (id_to_type i = None \<longrightarrow>
        input_values_of cols (rs @ (i, v) # rs') = input_values_of cols (rs @ rs'))"
proof (intro conjI impI)
  show "id_to_type i =
     (if i \<in> {1, 8, 11} then Some ''W''
      else if i \<in> {2, 9, 12} then Some ''L''
      else if i \<in> {7, 15, 16, 18} then Some ''T''
      else if i \<in> {3, 10} then Some ''N''
      else if i \<in> {4} then Some ''H''
      else if i \<in> {5, 13} then Some ''WD''
      else if i \<in> {6, 14} then Some ''WS''
      else if i \<in> {17} then Some ''AP''
      else None)"
    by (simp add: id_to_type_def)
next
  assume "col \<in> set cols"
  then show "input_values_of cols rs col =
          Some (if mapped_readings col rs = [] then None
                else Some (sum_list (mapped_readings col rs)
                           / real (length (mapped_readings col rs))))"
    by (simp add: input_values_of_apply)
next
  assume "id_to_type i = None"
  then show "input_values_of cols (rs @ (i, v) # rs') = input_values_of cols (rs @ rs')"
    by (simp add: fun_eq_iff input_values_of_apply mapped_readings_unmapped)
qed

theorem feature_value_is_mean_witness:
  "input_values_of [''W'', ''T'', ''SPEED_LIMIT''] [(1, 1500), (99, 4), (8, 1700), (7, - 2)] ''W''
     = Some (Some 1600)
   \<and> input_values_of [''W'', ''T'', ''SPEED_LIMIT''] [(1, 1500), (99, 4), (8, 1700), (7, - 2)] ''T''
     = Some (Some (- 2))
   \<and> input_values_of [''W'', ''T'', ''SPEED_LIMIT''] [(1, 1500), (99, 4), (8, 1700), (7, - 2)]
       ''SPEED_LIMIT'' = Some None
   \<and> input_values_of [''W'', ''T'', ''SPEED_LIMIT''] [(1, 1500), (99, 4), (8, 1700), (7, - 2)]
     = input_values_of [''W'', ''T'', ''SPEED_LIMIT''] [(1, 1500), (8, 1700), (7, - 2)]"
proof -
  let ?cols = "[''W'', ''T'', ''SPEED_LIMIT'']"
  let ?rs = "[(1, 1500), (99, 4), (8, 1700), (7, - 2)] :: (int \<times> real) list"
  have none: "id_to_type 99 = None"
    using feature_value_is_mean [where i = 99] by simp
  have w: "mapped_readings ''W'' ?rs = [1500, 1700]"
    and t: "mapped_readings ''T'' ?rs = [- 2]"
    and sl: "mapped_readings ''SPEED_LIMIT'' ?rs = []"
    by (simp_all add: mapped_readings_def id_to_type_def)
  have "input_values_of ?cols ?rs ''W'' = Some (Some 1600)"
    using feature_value_is_mean [where col = "''W''" and cols = ?cols and rs = ?rs] by (simp add: w)
  moreover have "input_values_of ?cols ?rs ''T'' = Some (Some (- 2))"
    using feature_value_is_mean [where col = "''T''" and cols = ?cols and rs = ?rs] by (simp add: t)
  moreover have "input_values_of ?cols ?rs ''SPEED_LIMIT'' = Some None"
    using feature_value_is_mean [where col = "''SPEED_LIMIT''" and cols = ?cols and rs = ?rs] by (simp add: sl)
  moreover have "input_values_of ?cols ([(1, 1500)] @ (99, 4) # [(8, 1700), (7, - 2)])
     = input_values_of ?cols ([(1, 1500)] @ [(8, 1700), (7, - 2)])"
    using feature_value_is_mean [where i = 99 and cols = ?cols and rs = "[(1, 1500)]" and v = 4
          and rs' = "[(8, 1700), (7, - 2)]"] none
    by blast
  ultimately show ?thesis by simp
qed

subsection \<open>Risk optimizer: feature order and a feature list without the speed\<close>

lemma trial_row_feature_row:
  "trial_row cols (input_values_of cols rs) speed = feature_row cols rs speed"
  by (simp add: trial_row_def feature_row_def input_values_of_apply)

lemma sparse_row:
  "feature_row [''T'', ''SPEED_LIMIT'', ''W''] [(1, 10), (8, 0), (99, 7)] c
     = [None, Some (real_of_int c), Some 5]"
  by (simp add: feature_row_def mapped_readings_def id_to_type_def)

text \<open>
  C6, as the specification states it, fails: with a feature list that lacks
  SPEED_LIMIT the operation answers with a success response of speed 80, not with an
  error.
\<close>

theorem missing_speed_feature_counterexample:
  "find_safe_speed_limit (demo_artifacts\<lparr>feature_cols := Some [''W'', ''T'']\<rparr>) demo_readings
     = Inr \<lparr>recommended_speed = 80, predicted_risk = 0,
            safety_status = ''Error: SPEED_LIMIT missing in model''\<rparr>"
  by (simp add: find_safe_speed_limit_def demo_artifacts_def)

text \<open>
  C6, amended. With scorer, scaler and feature list loaded: for every candidate the row
  fed to the imputer (zero-filled instead when no imputer is loaded) has one entry per
  name of the loaded feature list, in exactly the order of that list, holding the
  candidate speed under SPEED_LIMIT and the mean of the mapped readings (or absent)
  under every other name; the result of the imputer is what the scaler receives and the
  result of the scaler what the scorer receives, and a speed reported as safe was scored
  below 1.0 on this row. With SPEED_LIMIT in the feature list the operation fails with
  an unhandled error exactly when the imputer, the scaler or the scorer raises (as on a
  length mismatch) on a candidate the search reaches. With SPEED_LIMIT absent from the
  feature list the operation does not fail but answers with speed 80, risk 0.0 and the
  status text that names the missing feature.
\<close>

theorem feature_order_and_missing_speed:
  assumes "model a = Some m" and "scaler a = Some s" and "feature_cols a = Some cols"
  shows "risk_at a data speed =
           (case (case imputer a of
                    None \<Rightarrow> Some (map (\<lambda>v. case v of None \<Rightarrow> 0 | Some x \<Rightarrow> x)
                                      (feature_row cols (readings data) speed))
                  | Some imp \<Rightarrow> imp (feature_row cols (readings data) speed)) of
              None \<Rightarrow> None
            | Some X_imputed \<Rightarrow>
                (case s X_imputed of None \<Rightarrow> None | Some X_scaled \<Rightarrow> m X_scaled))
         \<and> length (feature_row cols (readings data) speed) = length cols
         \<and> (\<forall>k<length cols.
               feature_row cols (readings data) speed ! k =
                 (if cols ! k = ''SPEED_LIMIT'' then Some (real_of_int speed)
                  else if mapped_readings (cols ! k) (readings data) = [] then None
                  else Some (sum_list (mapped_readings (cols ! k) (readings data))
                             / real (length (mapped_readings (cols ! k) (readings data))))))
         \<and> (''SPEED_LIMIT'' \<in> set cols \<and> find_safe_speed_limit a data = Inr resp
              \<and> safety_status resp = ''Safe'' \<longrightarrow>
              (\<exists>r. risk_at a data (recommended_speed resp) = Some r \<and> r < 1))
         \<and> (''SPEED_LIMIT'' \<in> set cols \<longrightarrow>
              (find_safe_speed_limit a data = Inl InternalServerError
                \<longleftrightarrow> (\<exists>pre c post. candidate_speeds = pre @ c # post
                       \<and> (\<forall>p\<in>set pre. \<exists>r. risk_at a data p = Some r \<and> \<not> r < 1)
                       \<and> risk_at a data c = None)))
         \<and> (''SPEED_LIMIT'' \<notin> set cols
              \<longrightarrow> find_safe_speed_limit a data
                    = Inr \<lparr>recommended_speed = 80, predicted_risk = 0,
                           safety_status = ''Error: SPEED_LIMIT missing in model''\<rparr>)"
proof (intro conjI impI)
  show "risk_at a data speed =
           (case (case imputer a of
                    None \<Rightarrow> Some (map (\<lambda>v. case v of None \<Rightarrow> 0 | Some x \<Rightarrow> x)
                                      (feature_row cols (readings data) speed))
                  | Some imp \<Rightarrow> imp (feature_row cols (readings data) speed)) of
              None \<Rightarrow> None
            | Some X_imputed \<Rightarrow>
                (case s X_imputed of None \<Rightarrow> None | Some X_scaled \<Rightarrow> m X_scaled))"
    using assms
    by (simp add: risk_at_def predict_risk_def impute_def fillna0_def trial_row_feature_row
        split: option.splits)
  show "length (feature_row cols (readings data) speed) = length cols"
    by (simp add: feature_row_def)
  show "\<forall>k<length cols.
               feature_row cols (readings data) speed ! k =
                 (if cols ! k = ''SPEED_LIMIT'' then Some (real_of_int speed)
                  else if mapped_readings (cols ! k) (readings data) = [] then None
                  else Some (sum_list (mapped_readings (cols ! k) (readings data))
                             / real (length (mapped_readings (cols ! k) (readings data)))))"
    by (simp add: feature_row_def)
next
  assume "''SPEED_LIMIT'' \<in> set cols \<and> find_safe_speed_limit a data = Inr resp
              \<and> safety_status resp = ''Safe''"
  then show "\<exists>r. risk_at a data (recommended_speed resp) = Some r \<and> r < 1"
    using find_safe_status_safe [OF assms] by blast
next
  assume sl: "''SPEED_LIMIT'' \<in> set cols"
  have "find_safe_speed_limit a data = Inl InternalServerError
          \<longleftrightarrow> optimization_loop (risk_at a data) candidate_speeds
                \<lparr>best_speed = 30, lowest_risk = 999, found_safe = False\<rparr> = None"
    unfolding find_safe_unfold [OF assms sl] by (simp split: option.splits)
  also have "\<dots> \<longleftrightarrow> (\<exists>pre c post. candidate_speeds = pre @ c # post
                 \<and> (\<forall>p\<in>set pre. \<exists>r. risk_at a data p = Some r \<and> \<not> r < 1)
                 \<and> risk_at a data c = None)"
    by (rule loop_fails_iff)
  finally show "find_safe_speed_limit a data = Inl InternalServerError
          \<longleftrightarrow> (\<exists>pre c post. candidate_speeds = pre @ c # post
                 \<and> (\<forall>p\<in>set pre. \<exists>r. risk_at a data p = Some r \<and> \<not> r < 1)
                 \<and> risk_at a data c = None)" .
next
  assume "''SPEED_LIMIT'' \<notin> set cols"
  with assms show "find_safe_speed_limit a data
                    = Inr \<lparr>recommended_speed = 80, predicted_risk = 0,
                           safety_status = ''Error: SPEED_LIMIT missing in model''\<rparr>"
    by (simp add: find_safe_speed_limit_def)
qed


theorem feature_order_and_missing_speed_witness:
  "feature_row [''T'', ''SPEED_LIMIT'', ''W''] (readings demo_readings) 120
     = [None, Some 120, Some 5]
   \<and> risk_at sparse_artifacts demo_readings 120 = Some (5 / 4)
   \<and> find_safe_speed_limit
       (demo_artifacts\<lparr>model := Some (\<lambda>x. if sum_list x = 135 then Some 2 else None)\<rparr>)
       demo_readings = Inl InternalServerError
   \<and> find_safe_speed_limit (demo_artifacts\<lparr>feature_cols := Some [''T'']\<rparr>) demo_readings
     = Inr \<lparr>recommended_speed = 80, predicted_risk = 0,
            safety_status = ''Error: SPEED_LIMIT missing in model''\<rparr>"
proof -
  have ls: "model sparse_artifacts = Some (\<lambda>x. Some (sum_list x / 100))"
    "scaler sparse_artifacts = Some Some"
    "feature_cols sparse_artifacts = Some [''T'', ''SPEED_LIMIT'', ''W'']"
    by (simp_all add: sparse_artifacts_def)
  have row: "feature_row [''T'', ''SPEED_LIMIT'', ''W''] (readings demo_readings) 120
     = [None, Some 120, Some 5]"
    using sparse_row [of 120] by (simp add: demo_readings_def)
  note eq = feature_order_and_missing_speed
    [OF ls, where data = demo_readings and speed = 120, THEN conjunct1]
  have risk: "risk_at sparse_artifacts demo_readings 120 = Some (5 / 4)"
    unfolding eq row by (simp add: sparse_artifacts_def)
  let ?b = "demo_artifacts\<lparr>model := Some (\<lambda>x. if sum_list x = 135 then Some 2 else None)\<rparr>"
  have lb: "model ?b = Some (\<lambda>x. if sum_list x = 135 then Some 2 else None)"
    "scaler ?b = Some Some" "feature_cols ?b = Some [''W'', ''SPEED_LIMIT'']"
    by (simp_all add: demo_artifacts_def)
  have rb: "risk_at ?b demo_readings c = (if c = 130 then Some 2 else None)" for c
    by (simp add: risk_at_def demo_artifacts_def demo_readings_def predict_risk_def impute_def
        trial_row_def input_values_of_def collect_readings_def init_temp_values_def
        id_to_type_def fillna0_def)
  have "candidate_speeds = [130] @ 120 # [110, 100, 90, 80, 70, 60]
        \<and> (\<forall>p\<in>set [130]. \<exists>r. risk_at ?b demo_readings p = Some r \<and> \<not> r < 1)
        \<and> risk_at ?b demo_readings 120 = None"
    by (simp add: candidate_speeds_def rb)
  then have "\<exists>pre c post. candidate_speeds = pre @ c # post
        \<and> (\<forall>p\<in>set pre. \<exists>r. risk_at ?b demo_readings p = Some r \<and> \<not> r < 1)
        \<and> risk_at ?b demo_readings c = None"
    by blast
  with feature_order_and_missing_speed [OF lb, where data = demo_readings]
  have broken: "find_safe_speed_limit ?b demo_readings = Inl InternalServerError"
    by simp
  let ?c = "demo_artifacts\<lparr>feature_cols := Some [''T'']\<rparr>"
  have lc: "model ?c = Some (\<lambda>x. Some (sum_list x / 100))" "scaler ?c = Some Some"
    "feature_cols ?c = Some [''T'']"
    by (simp_all add: demo_artifacts_def)
  from feature_order_and_missing_speed [OF lc, where data = demo_readings]
  have "find_safe_speed_limit ?c demo_readings
     = Inr \<lparr>recommended_speed = 80, predicted_risk = 0,
            safety_status = ''Error: SPEED_LIMIT missing in model''\<rparr>"
    by simp
  with row risk broken show ?thesis by simp
qed

subsection \<open>Air-quality agent: fallback and final speed\<close>

text \<open>
  C4. Whenever the completion provider fails (the call raises for any reason, or it
  delivers no choice or no parsed object) the agent returns the fixed zero-reduction
  decision with its fixed baseline message; the agent returns a decision on every
  input, and the endpoint around it answers with a response of speed 80, not with a
  failure.
\<close>

theorem agent_failure_fallback:
  assumes "client n = Inl e \<or> client n = Inr [] \<or> (\<exists>rest. client n = Inr (None # rest))"
  shows "get_speed_reduction client n
           = \<lparr>SpeedReductionResponse.reduction_kmh = 0,
              SpeedReductionResponse.reason =
                ''Error connecting to AI Agent. Defaulting to safe baseline.''\<rparr>
         \<and> calculate_reduction client \<lparr>AirQualityRequest.aqi = n, description = d\<rparr>
           = Inr \<lparr>aqi_received = n, ReductionResponse.reduction_kmh = 0,
                  ReductionResponse.reason =
                    ''Error connecting to AI Agent. Defaulting to safe baseline.'',
                  recommended_speed_limit = 80\<rparr>"
proof -
  have "get_speed_reduction client n = fallback"
    using assms by (auto simp: get_speed_reduction_def)
  then show ?thesis
    by (simp add: calculate_reduction_def fallback_def)
qed

theorem agent_failure_fallback_witness:
  "get_speed_reduction (\<lambda>n. Inl Timeout) 200
     = \<lparr>SpeedReductionResponse.reduction_kmh = 0,
        SpeedReductionResponse.reason =
          ''Error connecting to AI Agent. Defaulting to safe baseline.''\<rparr>
   \<and> calculate_reduction (\<lambda>n. Inl Timeout)
       \<lparr>AirQualityRequest.aqi = 200, description = ''Unknown''\<rparr>
     = Inr \<lparr>aqi_received = 200, ReductionResponse.reduction_kmh = 0,
            ReductionResponse.reason =
              ''Error connecting to AI Agent. Defaulting to safe baseline.'',
            recommended_speed_limit = 80\<rparr>"
  using agent_failure_fallback [of "\<lambda>n. Inl Timeout" 200 Timeout "''Unknown''"]
  by simp

text \<open>
  C5. For every reduction the agent produces, the endpoint of the policy branch
  responds, and its speed is \<open>max 30 (80 - reduction)\<close>: baseline 80, never below 30.
\<close>

theorem policy_final_speed:
  "\<exists>resp. calculate_reduction client request = Inr resp
     \<and> ReductionResponse.reduction_kmh resp
         = SpeedReductionResponse.reduction_kmh
             (get_speed_reduction client (AirQualityRequest.aqi request))
     \<and> recommended_speed_limit resp = max 30 (80 - ReductionResponse.reduction_kmh resp)
     \<and> 30 \<le> recommended_speed_limit resp"
  by (simp add: calculate_reduction_def Let_def)

theorem policy_final_speed_witness:
  "\<exists>resp. calculate_reduction (constant_provider 70)
             \<lparr>AirQualityRequest.aqi = 400, description = ''Unknown''\<rparr> = Inr resp
     \<and> ReductionResponse.reduction_kmh resp = 70
     \<and> recommended_speed_limit resp = 30"
  using policy_final_speed [of "constant_provider 70"
      "\<lparr>AirQualityRequest.aqi = 400, description = ''Unknown''\<rparr>"]
  by (auto simp: get_speed_reduction_def constant_provider_def)

subsection \<open>Controller in front of the deployed services\<close>

lemma inference_reply:
  "inference_post (deployed fmt a client str coerce) d = Inr body \<Longrightarrow>
     (\<exists>resp. find_safe_speed_limit a d = Inr resp \<and> body = SpeedLimitResponse_json resp)
   \<or> (\<exists>detail. body = JObj [(''detail'', JStr detail)])"
  by (auto simp: deployed_def http_body_def split: sum.splits http_error.splits)

lemma branch_neural_network_deployed:
  assumes "branch_neural_network (deployed fmt a client str coerce) rr u = Inr d"
  shows "source_service d = ''Neural Network Inference''
         \<and> final_speed_limit d \<in> set candidate_speeds"
proof -
  let ?sv = "deployed fmt a client str coerce"
  from assms obtain body where
    body: "inference_post ?sv \<lparr>readings = map_input_to_sensors u\<rparr> = Inr body"
    by (auto simp: branch_neural_network_def Let_def split: sum.splits)
  from inference_reply [OF body] show ?thesis
  proof
    assume "\<exists>resp. find_safe_speed_limit a \<lparr>readings = map_input_to_sensors u\<rparr> = Inr resp
              \<and> body = SpeedLimitResponse_json resp"
    then obtain resp where
      r: "find_safe_speed_limit a \<lparr>readings = map_input_to_sensors u\<rparr> = Inr resp"
      and b: "body = SpeedLimitResponse_json resp" by blast
    from assms body b have "source_service d = ''Neural Network Inference''"
      and "final_speed_limit d = recommended_speed resp"
      by (auto simp: branch_neural_network_def Let_def SpeedLimitResponse_json_def int_field_def)
    with find_safe_speed_in_ladder [OF r] show ?thesis by simp
  next
    assume "\<exists>detail. body = JObj [(''detail'', JStr detail)]"
    with assms body show ?thesis
      by (auto simp: branch_neural_network_def Let_def)
  qed
qed

lemma branch_air_quality_deployed:
  "branch_air_quality (deployed fmt a client str coerce) u =
     Inr \<lparr>final_speed_limit =
            max 30 (80 - SpeedReductionResponse.reduction_kmh
                           (get_speed_reduction client (UserInput.aqi u))),
          reason = ''Weather is safe. Adjustment based on Air Quality: ''
                   @ SpeedReductionResponse.reason (get_speed_reduction client (UserInput.aqi u)),
          source_service = ''Air Quality Agent (LLM)''\<rparr>"
  by (simp add: branch_air_quality_def deployed_def http_body_def calculate_reduction_def
      ReductionResponse_json_def int_field_def fstr_def Let_def)

lemma call_router_deployed:
  "call_router (deployed fmt a client str coerce) u =
     Inr (JBool (requires_neural_network (check_weather_conditions fmt (router_payload u))),
          JStr (RouterDecision.reason (check_weather_conditions fmt (router_payload u))))"
  by (simp add: call_router_def deployed_def http_body_def RouterDecision_json_def)

lemma decide_deployed:
  "decide_speed_limit (deployed fmt a client str coerce) u =
     (if requires_neural_network (check_weather_conditions fmt (router_payload u))
      then branch_neural_network (deployed fmt a client str coerce)
             (JStr (RouterDecision.reason (check_weather_conditions fmt (router_payload u)))) u
      else branch_air_quality (deployed fmt a client str coerce) u)"
  by (simp add: decide_speed_limit_def call_router_deployed)

text \<open>BRANCH A reads the services only through the inference call and the two conversions.\<close>

lemma branch_neural_network_cong:
  assumes "inference_post sv = inference_post sv'" and "py_str sv = py_str sv'"
    and "coerce_int sv = coerce_int sv'" and "map_input_to_sensors u = map_input_to_sensors u'"
  shows "branch_neural_network sv rr u = branch_neural_network sv' rr u'"
proof -
  have f: "fstr sv = fstr sv'"
    by (rule ext) (simp add: fstr_def assms(2) split: json.splits)
  have i: "int_field sv = int_field sv'"
    by (rule ext) (simp add: int_field_def assms(3) split: json.splits)
  show ?thesis
    unfolding branch_neural_network_def assms(1,4) f i ..
qed

lemma clear_day_decision:
  "decide_speed_limit (demo_system (constant_provider r)) (clear_day n)
     = Inr \<lparr>final_speed_limit = max 30 (80 - r),
            reason = ''Weather is safe. Adjustment based on Air Quality: Air quality rule'',
            source_service = ''Air Quality Agent (LLM)''\<rparr>"
  by (simp add: demo_system_def decide_deployed branch_air_quality_deployed router_payload_def
      clear_day_def check_weather_conditions_def THRESHOLD_LUX_def THRESHOLD_WATER_def
      THRESHOLD_TEMP_def get_speed_reduction_def constant_provider_def)

text \<open>
  C3, as the specification states it, fails: on a clear day with AQI 200 and a provider
  that answers with the reduction 40 (a value its own rules name), the decision
  succeeds with the speed 40, which is not in the set.
\<close>

theorem final_speed_limit_counterexample:
  "decide_speed_limit (demo_system (constant_provider 40)) (clear_day 200)
     = Inr \<lparr>final_speed_limit = 40,
            reason = ''Weather is safe. Adjustment based on Air Quality: Air quality rule'',
            source_service = ''Air Quality Agent (LLM)''\<rparr>
   \<and> (40 :: int) \<notin> {130, 120, 110, 100, 90, 80, 70, 60, 50, 30}"
  by (simp add: clear_day_decision)

text \<open>
  C3, amended. A successful decision of the controller in front of the three services
  either comes from the risk model, with a speed of the ladder 130, ..., 60, or from
  the air-quality agent, with the speed \<open>max 30 (80 - reduction)\<close> for the reduction
  the agent returned. The speed is therefore never below 30, and it is in
  \<open>{130, 120, 110, 100, 90, 80, 70, 60, 50, 30}\<close> whenever that reduction is 0, 10, 20
  or 30, or at least 50.
\<close>

theorem final_speed_limit_range:
  assumes "decide_speed_limit (deployed fmt a client str coerce) u = Inr d"
  shows "((source_service d = ''Neural Network Inference''
            \<and> final_speed_limit d \<in> {130, 120, 110, 100, 90, 80, 70, 60})
          \<or> (source_service d = ''Air Quality Agent (LLM)''
            \<and> final_speed_limit d =
                max 30 (80 - SpeedReductionResponse.reduction_kmh
                               (get_speed_reduction client (UserInput.aqi u)))))
         \<and> 30 \<le> final_speed_limit d
         \<and> (SpeedReductionResponse.reduction_kmh (get_speed_reduction client (UserInput.aqi u))
               \<in> {0, 10, 20, 30}
             \<or> 50 \<le> SpeedReductionResponse.reduction_kmh
                        (get_speed_reduction client (UserInput.aqi u))
             \<longrightarrow> final_speed_limit d \<in> {130, 120, 110, 100, 90, 80, 70, 60, 50, 30})"
proof (cases "requires_neural_network (check_weather_conditions fmt (router_payload u))")
  case True
  with assms have "branch_neural_network (deployed fmt a client str coerce)
             (JStr (RouterDecision.reason (check_weather_conditions fmt (router_payload u)))) u
           = Inr d"
    by (simp add: decide_deployed)
  from branch_neural_network_deployed [OF this] show ?thesis
    by (auto simp: candidate_speeds_def)
next
  case False
  with assms have "branch_air_quality (deployed fmt a client str coerce) u = Inr d"
    by (simp add: decide_deployed)
  then show ?thesis
    unfolding branch_air_quality_deployed by auto
qed

theorem final_speed_limit_range_witness:
  "decide_speed_limit (demo_system (constant_provider 20)) (clear_day 120)
     = Inr \<lparr>final_speed_limit = 60,
            reason = ''Weather is safe. Adjustment based on Air Quality: Air quality rule'',
            source_service = ''Air Quality Agent (LLM)''\<rparr>
   \<and> (60 :: int) \<in> {130, 120, 110, 100, 90, 80, 70, 60, 50, 30}"
proof -
  let ?d = "\<lparr>final_speed_limit = 60,
            reason = ''Weather is safe. Adjustment based on Air Quality: Air quality rule'',
            source_service = ''Air Quality Agent (LLM)''\<rparr>"
  have run: "decide_speed_limit
               (deployed (\<lambda>x. ''0.0'') demo_artifacts (constant_provider 20) (\<lambda>v. []) (\<lambda>v. None))
               (clear_day 120) = Inr ?d"
    using clear_day_decision [of 20 120] by (simp add: demo_system_def)
  have "SpeedReductionResponse.reduction_kmh
          (get_speed_reduction (constant_provider 20) (UserInput.aqi (clear_day 120))) = 20"
    by (simp add: get_speed_reduction_def constant_provider_def)
  with final_speed_limit_range [OF run]
  have "final_speed_limit ?d \<in> {130, 120, 110, 100, 90, 80, 70, 60, 50, 30}"
    by simp
  with run show ?thesis by (simp add: demo_system_def)
qed

text \<open>
  C8. Two requests with the same temperature, water level and illuminance, for which
  the router asks for the risk model, get the same answer from the controller (the same
  recommendation or the same failure), whatever their AQI values and whatever the
  air-quality agent would have said.
\<close>

theorem risk_branch_ignores_aqi:
  assumes "UserInput.temperature_celsius u1 = UserInput.temperature_celsius u2"
    and "UserInput.water_level_micrometers u1 = UserInput.water_level_micrometers u2"
    and "UserInput.illuminance_lux u1 = UserInput.illuminance_lux u2"
    and "requires_neural_network (check_weather_conditions fmt (router_payload u1))"
  shows "decide_speed_limit (deployed fmt a client str coerce) u1
         = decide_speed_limit (deployed fmt a client' str coerce) u2"
proof -
  have p: "router_payload u1 = router_payload u2"
    using assms(1-3) by (simp add: router_payload_def)
  have s: "map_input_to_sensors u1 = map_input_to_sensors u2"
    using assms(1-3) by (simp add: map_input_to_sensors_def)
  have "branch_neural_network (deployed fmt a client str coerce) rr u1
        = branch_neural_network (deployed fmt a client' str coerce) rr u2" for rr
    by (rule branch_neural_network_cong) (simp_all add: s deployed_def)
  with assms(4) p show ?thesis
    by (simp add: decide_deployed)
qed

theorem risk_branch_ignores_aqi_witness:
  "decide_speed_limit (demo_system (constant_provider 0)) (dark_night 20)
     = decide_speed_limit (demo_system (constant_provider 40)) (dark_night 300)
   \<and> UserInput.aqi (dark_night 20) \<noteq> UserInput.aqi (dark_night 300)"
proof -
  have "requires_neural_network
          (check_weather_conditions (\<lambda>x. ''0.0'') (router_payload (dark_night 20)))"
    by (simp add: check_weather_conditions_def router_payload_def dark_night_def
        THRESHOLD_LUX_def Let_def)
  from risk_branch_ignores_aqi [of "dark_night 20" "dark_night 300", OF _ _ _ this]
  show ?thesis
    by (simp add: demo_system_def dark_night_def)
qed

text \<open>
  C10, as stated for every parseable body without the field, fails: a body that is a
  JSON array has no such field, and the controller rejects the request with the 503 of
  the router.
\<close>

theorem router_reply_counterexample:
  "decide_speed_limit (demo_system (constant_provider 10)\<lparr>router_post := \<lambda>w. Inr (JArr [])\<rparr>)
     (clear_day 120)
   = Inl (HTTPException 503 ''Failed to contact Router Service: '')"
  by (simp add: decide_speed_limit_def call_router_def)

text \<open>
  C10, amended. When the router answers with a JSON object that has no field
  requires_neural_network, the controller takes the verdict to be false (and the reason
  to be the placeholder when that field is missing too), so the request goes to the
  air-quality branch: it is not rejected as a failure of the router, and with a
  well-formed answer of the air-quality service the recommendation is the one of the
  policy agent. When the router answers with a parseable body that is not a JSON object
  (an array, a string, a number, a boolean or null), the request is rejected with the
  503 of the router.
\<close>

theorem router_reply_without_verdict:
  "(router_post sv (router_payload u) = Inr (JObj kvs)
      \<and> map_of kvs ''requires_neural_network'' = None \<longrightarrow>
      call_router sv u
        = Inr (JBool False,
               case map_of kvs ''reason'' of None \<Rightarrow> JStr ''Unknown'' | Some r \<Rightarrow> r)
      \<and> decide_speed_limit sv u = branch_air_quality sv u
      \<and> decide_speed_limit sv u \<noteq> Inl (HTTPException 503 ''Failed to contact Router Service: '')
      \<and> (air_quality_post sv \<lparr>AirQualityRequest.aqi = UserInput.aqi u,
                               description = ''User Input from Controller''\<rparr>
            = Inr (JObj reply)
          \<and> map_of reply ''recommended_speed_limit'' = Some (JInt n)
          \<and> map_of reply ''reason'' = Some (JStr r)
          \<longrightarrow> decide_speed_limit sv u
                = Inr \<lparr>final_speed_limit = n,
                       reason = ''Weather is safe. Adjustment based on Air Quality: '' @ r,
                       source_service = ''Air Quality Agent (LLM)''\<rparr>))
   \<and> (router_post sv (router_payload u) = Inr body \<and> (\<forall>fields. body \<noteq> JObj fields) \<longrightarrow>
        decide_speed_limit sv u = Inl (HTTPException 503 ''Failed to contact Router Service: ''))"
proof (intro conjI impI)
  assume h: "router_post sv (router_payload u) = Inr (JObj kvs)
      \<and> map_of kvs ''requires_neural_network'' = None"
  then show cr: "call_router sv u
           = Inr (JBool False,
                  case map_of kvs ''reason'' of None \<Rightarrow> JStr ''Unknown'' | Some r \<Rightarrow> r)"
    by (simp add: call_router_def)
  then show d: "decide_speed_limit sv u = branch_air_quality sv u"
    by (simp add: decide_speed_limit_def)
  have "branch_air_quality sv u \<noteq> Inl (HTTPException 503 ''Failed to contact Router Service: '')"
    by (auto simp: branch_air_quality_def Let_def split: sum.splits)
  with d show "decide_speed_limit sv u
                 \<noteq> Inl (HTTPException 503 ''Failed to contact Router Service: '')"
    by simp
  assume "air_quality_post sv \<lparr>AirQualityRequest.aqi = UserInput.aqi u,
                               description = ''User Input from Controller''\<rparr>
            = Inr (JObj reply)
          \<and> map_of reply ''recommended_speed_limit'' = Some (JInt n)
          \<and> map_of reply ''reason'' = Some (JStr r)"
  then have "branch_air_quality sv u
                = Inr \<lparr>final_speed_limit = n,
                       reason = ''Weather is safe. Adjustment based on Air Quality: '' @ r,
                       source_service = ''Air Quality Agent (LLM)''\<rparr>"
    by (simp add: branch_air_quality_def Let_def int_field_def fstr_def)
  with d show "decide_speed_limit sv u
                = Inr \<lparr>final_speed_limit = n,
                       reason = ''Weather is safe. Adjustment based on Air Quality: '' @ r,
                       source_service = ''Air Quality Agent (LLM)''\<rparr>"
    by simp
next
  assume h: "router_post sv (router_payload u) = Inr body \<and> (\<forall>fields. body \<noteq> JObj fields)"
  then have "py_get body ''requires_neural_network'' (JBool False) = Inl AttributeError"
    by (cases body) simp_all
  with h show "decide_speed_limit sv u
                 = Inl (HTTPException 503 ''Failed to contact Router Service: '')"
    by (simp add: decide_speed_limit_def call_router_def)
qed

theorem router_reply_without_verdict_witness:
  "call_router (demo_system (constant_provider 10)\<lparr>router_post := \<lambda>w. Inr (JObj [])\<rparr>)
     (dark_night 120) = Inr (JBool False, JStr ''Unknown'')
   \<and> decide_speed_limit (demo_system (constant_provider 10)\<lparr>router_post := \<lambda>w. Inr (JObj [])\<rparr>)
       (dark_night 120)
     = Inr \<lparr>final_speed_limit = 70,
            reason = ''Weather is safe. Adjustment based on Air Quality: Air quality rule'',
            source_service = ''Air Quality Agent (LLM)''\<rparr>
   \<and> decide_speed_limit (demo_system (constant_provider 10)\<lparr>router_post := \<lambda>w. Inr JNull\<rparr>)
       (dark_night 120)
     = Inl (HTTPException 503 ''Failed to contact Router Service: '')"
proof -
  let ?sv = "demo_system (constant_provider 10)\<lparr>router_post := \<lambda>w. Inr (JObj [])\<rparr>"
  let ?reply = "[(''aqi_received'', JInt 120), (''reduction_kmh'', JInt 10),
                 (''reason'', JStr ''Air quality rule''),
                 (''recommended_speed_limit'', JInt 70)]"
  have r: "router_post ?sv (router_payload (dark_night 120)) = Inr (JObj [])
           \<and> map_of ([] :: (string \<times> json) list) ''requires_neural_network'' = None"
    by simp
  note main = router_reply_without_verdict
    [where sv = ?sv and u = "dark_night 120" and kvs = "[]" and n = 70
       and r = "''Air quality rule''" and reply = ?reply, THEN conjunct1, THEN mp, OF r]
  have aq: "air_quality_post ?sv \<lparr>AirQualityRequest.aqi = UserInput.aqi (dark_night 120),
                                   description = ''User Input from Controller''\<rparr>
       = Inr (JObj ?reply)"
    by (simp add: demo_system_def deployed_def http_body_def calculate_reduction_def
        ReductionResponse_json_def get_speed_reduction_def constant_provider_def dark_night_def)
  have m1: "map_of ?reply ''recommended_speed_limit'' = Some (JInt 70)"
    and m2: "map_of ?reply ''reason'' = Some (JStr ''Air quality rule'')"
    by simp_all
  from main have first: "call_router ?sv (dark_night 120) = Inr (JBool False, JStr ''Unknown'')"
    by simp
  from main aq m1 m2 have "decide_speed_limit ?sv (dark_night 120)
     = Inr \<lparr>final_speed_limit = 70,
            reason = ''Weather is safe. Adjustment based on Air Quality: '' @ ''Air quality rule'',
            source_service = ''Air Quality Agent (LLM)''\<rparr>"
    by blast
  then have second: "decide_speed_limit ?sv (dark_night 120)
     = Inr \<lparr>final_speed_limit = 70,
            reason = ''Weather is safe. Adjustment based on Air Quality: Air quality rule'',
            source_service = ''Air Quality Agent (LLM)''\<rparr>"
    by simp
  let ?sv' = "demo_system (constant_provider 10)\<lparr>router_post := \<lambda>w. Inr JNull\<rparr>"
  have r': "router_post ?sv' (router_payload (dark_night 120)) = Inr JNull
            \<and> (\<forall>fields. JNull \<noteq> JObj fields)"
    by simp
  note third = router_reply_without_verdict
    [where sv = ?sv' and u = "dark_night 120" and body = JNull, THEN conjunct2, THEN mp, OF r']
  from first second third show ?thesis by blast
qed

end
